theory Spec2Isabelle
  imports Main "HOL-Library.AList"
begin

section \<open>Values shared by the modules\<close>

text \<open>
  JSON values as Python's \<open>json\<close> module and pydantic's \<open>mode="json"\<close> produce them.
  A \<open>JDict\<close> lists the items of a dict in insertion order. Floating-point numbers are
  left out.
\<close>

datatype json =
    JNull
  | JBool bool
  | JInt int
  | JStr string
  | JList "json list"
  | JDict "(string \<times> json) list"

text \<open>A naive \<open>datetime\<close>, as \<open>datetime.utcnow()\<close> and \<open>datetime.now()\<close> return it.\<close>

record datetime =
  year :: nat
  month :: nat
  day :: nat
  hour :: nat
  minute :: nat
  second :: nat
  microsecond :: nat

definition digit :: "nat \<Rightarrow> char" where
  "digit d = ''0123456789'' ! d"

text \<open>The decimal numeral of a natural number (\<open>str(n)\<close>, \<open>"%d" % n\<close>).\<close>

fun dec :: "nat \<Rightarrow> string" where
  "dec n = (if n < 10 then [digit n] else dec (n div 10) @ [digit (n mod 10)])"

declare dec.simps [simp del]

text \<open>\<open>"%0kd" % n\<close>: at least \<open>k\<close> digits, padded with zeros on the left.\<close>

definition zpad :: "nat \<Rightarrow> nat \<Rightarrow> string" where
  "zpad k n = replicate (k - length (dec n)) (CHR ''0'') @ dec n"

text \<open>
  The text pydantic writes for a naive datetime in JSON mode (ISO 8601; the fraction is
  printed only when the microseconds are not zero).
\<close>

definition isoformat :: "datetime \<Rightarrow> string" where
  "isoformat t =
     zpad 4 (year t) @ ''-'' @ zpad 2 (month t) @ ''-'' @ zpad 2 (day t) @ ''T'' @
     zpad 2 (hour t) @ '':'' @ zpad 2 (minute t) @ '':'' @ zpad 2 (second t) @
     (if microsecond t = 0 then [] else ''.'' @ zpad 6 (microsecond t))"

section \<open>api/models.py\<close>

text \<open>An \<open>HttpUrl\<close> is kept as the normalised text pydantic stores for it.\<close>

datatype HttpUrl = HttpUrl (url_text: string)

record BrandConfig =
  client_id :: string
  display_name :: string
  primary_color :: "string option"
  secondary_color :: "string option"
  font_family :: "string option"
  logo_path :: "string option"
  website_url :: "HttpUrl option"
  created_at :: "datetime option"
  updated_at :: "datetime option"

text \<open>\<open>BrandConfig.model_dump(mode="json")\<close>: one item per declared field, \<open>None\<close> as null.\<close>

definition opt_json :: "('a \<Rightarrow> json) \<Rightarrow> 'a option \<Rightarrow> json" where
  "opt_json f x = (case x of None \<Rightarrow> JNull | Some v \<Rightarrow> f v)"

definition model_dump :: "BrandConfig \<Rightarrow> json" where
  "model_dump b = JDict
     [(''client_id'', JStr (client_id b)),
      (''display_name'', JStr (display_name b)),
      (''primary_color'', opt_json JStr (primary_color b)),
      (''secondary_color'', opt_json JStr (secondary_color b)),
      (''font_family'', opt_json JStr (font_family b)),
      (''logo_path'', opt_json JStr (logo_path b)),
      (''website_url'', opt_json (\<lambda>u. JStr (url_text u)) (website_url b)),
      (''created_at'', opt_json (\<lambda>t. JStr (isoformat t)) (created_at b)),
      (''updated_at'', opt_json (\<lambda>t. JStr (isoformat t)) (updated_at b))]"

text \<open>
  Validation, \<open>BrandConfig(**v)\<close>. The validators of the two library types (URL and
  datetime) belong to pydantic and are parameters of the model; \<open>None\<close> is a
  \<open>ValidationError\<close>.
\<close>

record pydantic =
  url_validator :: "json \<Rightarrow> HttpUrl option"
  datetime_validator :: "json \<Rightarrow> datetime option"

definition str_validator :: "json \<Rightarrow> string option" where
  "str_validator j = (case j of JStr s \<Rightarrow> Some s | _ \<Rightarrow> None)"

definition required_field :: "(json \<Rightarrow> 'a option) \<Rightarrow> (string \<times> json) list \<Rightarrow> string \<Rightarrow> 'a option" where
  "required_field val d k = (case map_of d k of None \<Rightarrow> None | Some j \<Rightarrow> val j)"

definition optional_field :: "(json \<Rightarrow> 'a option) \<Rightarrow> (string \<times> json) list \<Rightarrow> string \<Rightarrow> 'a option option" where
  "optional_field val d k =
     (case map_of d k of
        None \<Rightarrow> Some None
      | Some JNull \<Rightarrow> Some None
      | Some j \<Rightarrow> map_option Some (val j))"

definition BrandConfig_validate :: "pydantic \<Rightarrow> json \<Rightarrow> BrandConfig option" where
  "BrandConfig_validate V j =
     (case j of
        JDict d \<Rightarrow>
          Option.bind (required_field str_validator d ''client_id'') (\<lambda>cid.
          Option.bind (required_field str_validator d ''display_name'') (\<lambda>dn.
          Option.bind (optional_field str_validator d ''primary_color'') (\<lambda>pc.
          Option.bind (optional_field str_validator d ''secondary_color'') (\<lambda>sc.
          Option.bind (optional_field str_validator d ''font_family'') (\<lambda>ff.
          Option.bind (optional_field str_validator d ''logo_path'') (\<lambda>lp.
          Option.bind (optional_field (url_validator V) d ''website_url'') (\<lambda>wu.
          Option.bind (optional_field (datetime_validator V) d ''created_at'') (\<lambda>ca.
          Option.bind (optional_field (datetime_validator V) d ''updated_at'') (\<lambda>ua.
          Some \<lparr>client_id = cid, display_name = dn, primary_color = pc,
                secondary_color = sc, font_family = ff, logo_path = lp,
                website_url = wu, created_at = ca, updated_at = ua\<rparr>)))))))))
      | _ \<Rightarrow> None)"

section \<open>api/storage.py\<close>

text \<open>
  The backing file: absent, not decodable as JSON, or holding a JSON value. The text
  layer of \<open>json.dump\<close> and \<open>json.load\<close> is not modelled: a file holds the value that
  was dumped. Writing the file and creating its directory are taken to succeed.
\<close>

datatype file_content = Undecodable | Decoded json

text \<open>
  \<open>cache\<close> is the dict \<open>_cache\<close>, its items in insertion order; a dict has no two items
  with the same key.
\<close>

record BrandStorage =
  cache :: "(string \<times> BrandConfig) list"
  disk :: "file_content option"

definition load :: "pydantic \<Rightarrow> BrandStorage \<Rightarrow> BrandStorage" where
  "load V s =
     (case disk s of
        None \<Rightarrow> s\<lparr>cache := []\<rparr>
      | Some Undecodable \<Rightarrow> s\<lparr>cache := []\<rparr>
      | Some (Decoded (JDict data)) \<Rightarrow>
          (case those (map (\<lambda>(k, v). map_option (Pair k) (BrandConfig_validate V v)) data) of
             None \<Rightarrow> s\<lparr>cache := []\<rparr>
           | Some c \<Rightarrow> s\<lparr>cache := c\<rparr>)
      | Some (Decoded _) \<Rightarrow> s\<lparr>cache := []\<rparr>)"

definition save :: "BrandStorage \<Rightarrow> BrandStorage" where
  "save s = s\<lparr>disk := Some (Decoded (JDict (map (\<lambda>(k, v). (k, model_dump v)) (cache s))))\<rparr>"

text \<open>\<open>BrandStorage(storage_path)\<close> on a file system whose backing file is \<open>d\<close>.\<close>

definition BrandStorage_init :: "pydantic \<Rightarrow> file_content option \<Rightarrow> BrandStorage" where
  "BrandStorage_init V d = load V \<lparr>cache = [], disk = d\<rparr>"

definition get :: "BrandStorage \<Rightarrow> string \<Rightarrow> BrandConfig option" where
  "get s cid = map_of (cache s) cid"

definition get_all :: "BrandStorage \<Rightarrow> BrandConfig list" where
  "get_all s = map snd (cache s)"

text \<open>\<open>now\<close> is the reading of \<open>datetime.utcnow()\<close>.\<close>

definition upsert :: "datetime \<Rightarrow> BrandStorage \<Rightarrow> BrandConfig \<Rightarrow> BrandStorage \<times> BrandConfig" where
  "upsert now s brand =
     (let brand' =
            (case map_of (cache s) (client_id brand) of
               Some existing \<Rightarrow> brand\<lparr>created_at := created_at existing, updated_at := Some now\<rparr>
             | None \<Rightarrow> brand\<lparr>created_at := Some now, updated_at := Some now\<rparr>)
      in (save (s\<lparr>cache := AList.update (client_id brand') brand' (cache s)\<rparr>), brand'))"

definition update_logo :: "datetime \<Rightarrow> BrandStorage \<Rightarrow> string \<Rightarrow> string \<Rightarrow> BrandStorage \<times> BrandConfig option" where
  "update_logo now s cid lp =
     (case map_of (cache s) cid of
        Some brand \<Rightarrow>
          (let brand' = brand\<lparr>logo_path := Some lp, updated_at := Some now\<rparr>
           in (save (s\<lparr>cache := AList.update cid brand' (cache s)\<rparr>), Some brand'))
      | None \<Rightarrow> (s, None))"

definition delete :: "BrandStorage \<Rightarrow> string \<Rightarrow> BrandStorage \<times> bool" where
  "delete s cid =
     (if cid \<in> fst ` set (cache s)
      then (save (s\<lparr>cache := AList.delete cid (cache s)\<rparr>), True)
      else (s, False))"

definition exists :: "BrandStorage \<Rightarrow> string \<Rightarrow> bool" where
  "exists s cid = (cid \<in> fst ` set (cache s))"

text \<open>
  A record whose library-typed fields the validators read back from their own JSON text.
  pydantic's validators do so for every value they have produced; the condition makes
  that contract of the library explicit.
\<close>

definition accepts_own_dump :: "pydantic \<Rightarrow> BrandConfig \<Rightarrow> bool" where
  "accepts_own_dump V b =
     ((case website_url b of None \<Rightarrow> True
        | Some u \<Rightarrow> url_validator V (JStr (url_text u)) = Some u) \<and>
      (case created_at b of None \<Rightarrow> True
        | Some t \<Rightarrow> datetime_validator V (JStr (isoformat t)) = Some t) \<and>
      (case updated_at b of None \<Rightarrow> True
        | Some t \<Rightarrow> datetime_validator V (JStr (isoformat t)) = Some t))"

subsection \<open>A validator for ISO 8601 texts\<close>

text \<open>
  An instance of the validators: the datetime validator reads the two shapes
  \<open>isoformat\<close> writes (\<open>YYYY-MM-DDTHH:MM:SS\<close>, with an optional six-digit fraction),
  the URL validator takes a string as the URL's text.
\<close>

definition digit_value :: "char \<Rightarrow> nat option" where
  "digit_value c = map_of
     [(CHR ''0'', 0), (CHR ''1'', 1), (CHR ''2'', 2), (CHR ''3'', 3), (CHR ''4'', 4),
      (CHR ''5'', 5), (CHR ''6'', 6), (CHR ''7'', 7), (CHR ''8'', 8), (CHR ''9'', 9)] c"

fun number :: "nat \<Rightarrow> string \<Rightarrow> nat option" where
  "number acc [] = Some acc"
| "number acc (c # cs) =
     (case digit_value c of None \<Rightarrow> None | Some d \<Rightarrow> number (10 * acc + d) cs)"

definition iso_datetime :: "string \<Rightarrow> datetime option" where
  "iso_datetime s =
     (if (length s = 19 \<or> (length s = 26 \<and> s ! 19 = CHR ''.'')) \<and>
         s ! 4 = CHR ''-'' \<and> s ! 7 = CHR ''-'' \<and> s ! 10 = CHR ''T'' \<and>
         s ! 13 = CHR '':'' \<and> s ! 16 = CHR '':''
      then
        Option.bind (number 0 (take 4 s)) (\<lambda>y.
        Option.bind (number 0 (take 2 (drop 5 s))) (\<lambda>mo.
        Option.bind (number 0 (take 2 (drop 8 s))) (\<lambda>d.
        Option.bind (number 0 (take 2 (drop 11 s))) (\<lambda>h.
        Option.bind (number 0 (take 2 (drop 14 s))) (\<lambda>mi.
        Option.bind (number 0 (take 2 (drop 17 s))) (\<lambda>sec.
        Option.bind (number 0 (drop 20 s)) (\<lambda>us.
        if 1 \<le> y \<and> 1 \<le> mo \<and> mo \<le> 12 \<and> 1 \<le> d \<and> d \<le> 31 \<and> h < 24 \<and> mi < 60 \<and> sec < 60 \<and>
           (length s = 26 \<longrightarrow> 0 < us)
        then Some \<lparr>year = y, month = mo, day = d, hour = h, minute = mi, second = sec,
                   microsecond = us\<rparr>
        else None)))))))
      else None)"

definition iso_validators :: pydantic where
  "iso_validators =
     \<lparr>url_validator = (\<lambda>j. case j of JStr s \<Rightarrow> Some (HttpUrl s) | _ \<Rightarrow> None),
      datetime_validator = (\<lambda>j. case j of JStr s \<Rightarrow> iso_datetime s | _ \<Rightarrow> None)\<rparr>"

text \<open>The field ranges of a Python \<open>datetime\<close>.\<close>

definition in_range :: "datetime \<Rightarrow> bool" where
  "in_range t = (1 \<le> year t \<and> year t \<le> 9999 \<and> 1 \<le> month t \<and> month t \<le> 12 \<and>
     1 \<le> day t \<and> day t \<le> 31 \<and> hour t < 24 \<and> minute t < 60 \<and> second t < 60 \<and>
     microsecond t < 1000000)"

section \<open>Errors and paths\<close>

text \<open>
  The exceptions the modules raise or let through, each with its message.
  \<open>NotFoundError\<close> is the error with which the template library reports a template file
  that is not there, \<open>TemplateError\<close> any other error of the template engine,
  \<open>BackendError\<close> an exception out of \<open>docx2pdf\<close>'s \<open>convert\<close>.
\<close>

datatype error =
    PdfConversionError string
  | HTTPException nat string
  | NotFoundError string
  | TemplateError string
  | BackendError string
  | ValueError string

fun str_of_error :: "error \<Rightarrow> string" where
  "str_of_error (PdfConversionError m) = m"
| "str_of_error (HTTPException c m) = m"
| "str_of_error (NotFoundError m) = m"
| "str_of_error (TemplateError m) = m"
| "str_of_error (BackendError m) = m"
| "str_of_error (ValueError m) = m"

text \<open>
  An absolute, resolved POSIX path is the list of its components, the file name last;
  the empty list is the root. \<open>joinpath p n\<close> is \<open>p / n\<close> for a name \<open>n\<close> of one
  component.
\<close>

type_synonym path = "string list"

definition path_str :: "path \<Rightarrow> string" where
  "path_str p = (if p = [] then ''/'' else concat (map (\<lambda>c. CHR ''/'' # c) p))"

definition parent :: "path \<Rightarrow> path" where
  "parent p = butlast p"

definition path_name :: "path \<Rightarrow> string" where
  "path_name p = (if p = [] then [] else last p)"

definition joinpath :: "path \<Rightarrow> string \<Rightarrow> path" where
  "joinpath p n = p @ [n]"

text \<open>
  \<open>p / s\<close> for any string \<open>s\<close>, as \<open>pathlib\<close> parses it: an \<open>s\<close> that starts with a slash
  replaces \<open>p\<close>; empty components and \<open>.\<close> are dropped, \<open>..\<close> is kept. \<open>joinpath\<close> is
  the case of an \<open>s\<close> that is one component.
\<close>

fun split_slash :: "string \<Rightarrow> string list" where
  "split_slash [] = [[]]"
| "split_slash (c # cs) =
     (if c = CHR ''/'' then [] # split_slash cs
      else (case split_slash cs of x # xs \<Rightarrow> (c # x) # xs | [] \<Rightarrow> [[c]]))"

definition path_parts :: "string \<Rightarrow> string list" where
  "path_parts s = filter (\<lambda>c. c \<noteq> [] \<and> c \<noteq> ''.'') (split_slash s)"

definition truediv :: "path \<Rightarrow> string \<Rightarrow> path" where
  "truediv p s = (if s \<noteq> [] \<and> hd s = CHR ''/'' then path_parts s else p @ path_parts s)"

text \<open>\<open>s.rfind(c)\<close>, with \<open>None\<close> for -1.\<close>

fun rfind :: "char \<Rightarrow> string \<Rightarrow> nat option" where
  "rfind c [] = None"
| "rfind c (x # xs) =
     (case rfind c xs of
        Some i \<Rightarrow> Some (Suc i)
      | None \<Rightarrow> if x = c then Some 0 else None)"

text \<open>\<open>PurePath.stem\<close>: the name without its last suffix; a leading or trailing dot starts no suffix.\<close>

definition stem :: "path \<Rightarrow> string" where
  "stem p =
     (let name = path_name p in
      case rfind (CHR ''.'') name of
        Some i \<Rightarrow> if 0 < i \<and> i + 1 < length name then take i name else name
      | None \<Rightarrow> name)"

text \<open>\<open>PurePath.with_suffix\<close>, which raises \<open>ValueError\<close> for a path with an empty name.\<close>

definition with_suffix :: "path \<Rightarrow> string \<Rightarrow> error + path" where
  "with_suffix p suffix =
     (if path_name p = [] then Inl (ValueError (path_str p @ '' has an empty name''))
      else Inr (joinpath (parent p) (stem p @ suffix)))"

text \<open>Python's \<open>sub in s\<close> on strings.\<close>

fun str_contains :: "string \<Rightarrow> string \<Rightarrow> bool" where
  "str_contains sub [] = (sub = [])"
| "str_contains sub (c # cs) = (take (length sub) (c # cs) = sub \<or> str_contains sub cs)"

text \<open>
  \<open>s.replace(old, new)\<close>: the occurrences of \<open>old\<close> are found from the left and do not
  overlap; an empty \<open>old\<close> matches before every character and at the end.
\<close>

function str_replace :: "string \<Rightarrow> string \<Rightarrow> string \<Rightarrow> string" where
  "str_replace old new s =
     (if old = [] then new @ concat (map (\<lambda>c. c # new) s)
      else if s = [] then []
      else if take (length old) s = old then new @ str_replace old new (drop (length old) s)
      else hd s # str_replace old new (tl s))"
  by pat_completeness auto
termination
  by (relation "measure (\<lambda>(old, new, s). length s)") (auto simp: neq_Nil_conv)

declare str_replace.simps [simp del]

section \<open>client_reports/pdf.py\<close>

text \<open>
  What the host does in one conversion: whether \<open>shutil.which("soffice")\<close> finds the
  tool, \<open>sys.platform\<close>, the exit status and \<open>stderr\<close> of the \<open>soffice\<close> process, whether
  \<open>docx2pdf\<close> can be imported, the exception its \<open>convert\<close> raises (if any), and the files
  on disk once the backend has run. Creating the output directory is taken to succeed.
\<close>

record host =
  soffice_on_path :: bool
  platform :: string
  soffice_returncode :: int
  soffice_stderr :: string
  docx2pdf_installed :: bool
  docx2pdf_raises :: "string option"
  exists_after :: "path \<Rightarrow> bool"

text \<open>The invocations of a backend: \<open>subprocess.run\<close> with its argument list, and \<open>convert\<close>.\<close>

datatype backend_call = SubprocessRun "string list" | Docx2pdfConvert string string

definition convert_with_libreoffice :: "host \<Rightarrow> path \<Rightarrow> path \<Rightarrow> backend_call list \<times> (error + path)" where
  "convert_with_libreoffice h docx_path output_dir =
     ([SubprocessRun [''soffice'', ''--headless'', ''--convert-to'', ''pdf'', ''--outdir'',
                      path_str output_dir, path_str docx_path]],
      if soffice_returncode h \<noteq> 0
      then Inl (PdfConversionError (''LibreOffice failed: '' @ soffice_stderr h))
      else Inr (joinpath output_dir (stem docx_path @ ''.pdf'')))"

definition convert_with_docx2pdf :: "host \<Rightarrow> path \<Rightarrow> path \<Rightarrow> backend_call list \<times> (error + path)" where
  "convert_with_docx2pdf h docx_path pdf_path =
     (if \<not> docx2pdf_installed h then ([], Inl (PdfConversionError ''docx2pdf not installed''))
      else
        ([Docx2pdfConvert (path_str docx_path) (path_str pdf_path)],
         case docx2pdf_raises h of
           Some m \<Rightarrow> Inl (BackendError m)
         | None \<Rightarrow>
             if \<not> exists_after h pdf_path
             then Inl (PdfConversionError ''docx2pdf did not create output file'')
             else Inr pdf_path))"

definition docx_to_pdf :: "host \<Rightarrow> path \<Rightarrow> path option \<Rightarrow> backend_call list \<times> (error + path)" where
  "docx_to_pdf h input_path output_path =
     (let docx_path = input_path in
      case (case output_path of None \<Rightarrow> with_suffix docx_path ''.pdf'' | Some p \<Rightarrow> Inr p) of
        Inl e \<Rightarrow> ([], Inl e)
      | Inr pdf_path \<Rightarrow>
          (let output_dir = parent pdf_path in
           if soffice_on_path h then convert_with_libreoffice h docx_path output_dir
           else if platform h \<in> {''win32'', ''darwin''} then convert_with_docx2pdf h docx_path pdf_path
           else ([], Inl (PdfConversionError
                  ''No PDF backend found. Install LibreOffice (soffice on PATH) or docx2pdf.''))))"

section \<open>client_reports/renderer.py\<close>

type_synonym report_context = "string \<rightharpoonup> json"

text \<open>
  The installation: \<open>BASE_DIR\<close>, the files on disk, and the template library.
  \<open>docxtpl th p ctx out\<close> is the exception, if any, with which the library leaves
  \<open>DocxTemplate(p)\<close>, \<open>doc.render(ctx)\<close> and \<open>doc.save(out)\<close>; the library is not part of
  the repository and is a parameter of the model. Creating the output directory is taken
  to succeed.
\<close>

record template_host =
  BASE_DIR :: path
  file_exists :: "path \<Rightarrow> bool"
  docxtpl :: "path \<Rightarrow> report_context \<Rightarrow> path \<Rightarrow> error option"

definition TEMPLATE_DIR :: "template_host \<Rightarrow> path" where
  "TEMPLATE_DIR th = joinpath (joinpath (BASE_DIR th) ''reports'') ''templates''"

definition OUTPUT_DIR :: "template_host \<Rightarrow> path" where
  "OUTPUT_DIR th = joinpath (joinpath (BASE_DIR th) ''reports'') ''output''"

definition default_output_name :: "string \<Rightarrow> string" where
  "default_output_name template_name = str_replace ''.docx'' ''_rendered.docx'' template_name"

definition render_docx :: "template_host \<Rightarrow> string \<Rightarrow> report_context \<Rightarrow> string option \<Rightarrow> error + path" where
  "render_docx th template_name ctx output_name =
     (let template_path = truediv (TEMPLATE_DIR th) template_name;
          output_name' = (case output_name of
                            None \<Rightarrow> default_output_name template_name
                          | Some n \<Rightarrow> n);
          output_path = truediv (OUTPUT_DIR th) output_name'
      in case docxtpl th template_path ctx output_path of
           Some e \<Rightarrow> Inl e
         | None \<Rightarrow> Inr output_path)"

text \<open>
  Modelled from the spec: the template library (\<open>docxtpl\<close>), whose code is not under
  \<open>src/\<close>. Section 4.3 of the specification: the renderer "fails with a NotFound-class
  error if the template file is absent" and "surfaces any of [the merge engine's] errors
  unchanged". \<open>renderer.py\<close> has no check of its own, so both are the library's: it
  reports a template file that is not on disk with its not-found error, and otherwise
  raises what the merge engine raises for the template and the context.
\<close>

definition spec_docxtpl ::
  "(path \<Rightarrow> bool) \<Rightarrow> (path \<Rightarrow> report_context \<Rightarrow> error option)
     \<Rightarrow> path \<Rightarrow> report_context \<Rightarrow> path \<Rightarrow> error option" where
  "spec_docxtpl on_disk engine p ctx out =
     (if \<not> on_disk p then Some (NotFoundError (path_str p)) else engine p ctx)"

section \<open>api/models.py: report requests\<close>

record MetricItem =
  m_name :: string
  m_value :: string
  m_change :: string
  m_status :: string

record RecommendationItem =
  r_priority :: string
  r_title :: string
  r_description :: string

record ContactInfo =
  c_name :: string
  c_title :: "string option"
  c_email :: "string option"
  c_phone :: "string option"

record ReportRequest =
  req_client_id :: string
  template_name :: string
  report_date :: "string option"
  report_period :: "string option"
  prepared_by :: "string option"
  executive_summary :: "string option"
  metrics :: "MetricItem list"
  highlights :: "string list"
  recommendations :: "RecommendationItem list"
  contact :: "ContactInfo option"
  extra_context :: "string \<rightharpoonup> json"
  generate_pdf :: bool
  output_filename :: "string option"

record ReportResponse =
  resp_client_id :: string
  docx_path :: string
  pdf_path :: "string option"
  generated_at :: datetime
  template_used :: string

text \<open>\<open>model_dump()\<close> of the items of a request.\<close>

definition MetricItem_dump :: "MetricItem \<Rightarrow> json" where
  "MetricItem_dump m = JDict
     [(''name'', JStr (m_name m)), (''value'', JStr (m_value m)),
      (''change'', JStr (m_change m)), (''status'', JStr (m_status m))]"

definition RecommendationItem_dump :: "RecommendationItem \<Rightarrow> json" where
  "RecommendationItem_dump r = JDict
     [(''priority'', JStr (r_priority r)), (''title'', JStr (r_title r)),
      (''description'', JStr (r_description r))]"

definition ContactInfo_dump :: "ContactInfo \<Rightarrow> json" where
  "ContactInfo_dump c = JDict
     [(''name'', JStr (c_name c)), (''title'', opt_json JStr (c_title c)),
      (''email'', opt_json JStr (c_email c)), (''phone'', opt_json JStr (c_phone c))]"

section \<open>api/main.py\<close>

definition month_name :: "nat \<Rightarrow> string" where
  "month_name m =
     [''January'', ''February'', ''March'', ''April'', ''May'', ''June'', ''July'',
      ''August'', ''September'', ''October'', ''November'', ''December''] ! (m - 1)"

text \<open>\<open>strftime("%B %d, %Y")\<close> and \<open>strftime("%Y%m%d_%H%M%S")\<close>.\<close>

definition strftime_long :: "datetime \<Rightarrow> string" where
  "strftime_long t = month_name (month t) @ '' '' @ zpad 2 (day t) @ '', '' @ zpad 4 (year t)"

definition strftime_stamp :: "datetime \<Rightarrow> string" where
  "strftime_stamp t =
     zpad 4 (year t) @ zpad 2 (month t) @ zpad 2 (day t) @ ''_'' @
     zpad 2 (hour t) @ zpad 2 (minute t) @ zpad 2 (second t)"

text \<open>\<open>x or d\<close> for an optional string \<open>x\<close>: \<open>None\<close> and the empty string are both false.\<close>

definition or_else :: "string option \<Rightarrow> string \<Rightarrow> string" where
  "or_else x d = (case x of None \<Rightarrow> d | Some v \<Rightarrow> if v = [] then d else v)"

text \<open>
  The context of \<open>generate_report\<close>: the items written out in the dict display, then
  \<open>**request.extra_context\<close>. \<open>today\<close> is the reading of \<open>datetime.now()\<close>.
\<close>

definition computed_context :: "BrandConfig \<Rightarrow> ReportRequest \<Rightarrow> datetime \<Rightarrow> report_context" where
  "computed_context brand request today = map_of
     [(''client_name'', JStr (display_name brand)),
      (''report_date'', JStr (or_else (report_date request) (strftime_long today))),
      (''report_period'', JStr (or_else (report_period request) [])),
      (''prepared_by'', JStr (or_else (prepared_by request) [])),
      (''executive_summary'', JStr (or_else (executive_summary request) [])),
      (''metrics'', JList (map MetricItem_dump (metrics request))),
      (''highlights'', JList (map JStr (highlights request))),
      (''recommendations'', JList (map RecommendationItem_dump (recommendations request))),
      (''contact'', (case contact request of Some c \<Rightarrow> ContactInfo_dump c | None \<Rightarrow> JDict [])),
      (''brand'', JDict
         [(''primary_color'', opt_json JStr (primary_color brand)),
          (''secondary_color'', opt_json JStr (secondary_color brand)),
          (''font_family'', opt_json JStr (font_family brand)),
          (''logo_path'', opt_json JStr (logo_path brand))])]"

definition build_context :: "BrandConfig \<Rightarrow> ReportRequest \<Rightarrow> datetime \<Rightarrow> report_context" where
  "build_context brand request today = computed_context brand request today ++ extra_context request"

text \<open>The calls \<open>generate_report\<close> makes into \<open>client_reports\<close>, in order.\<close>

datatype call = RenderDocx string string | DocxToPdf path

text \<open>
  \<open>today\<close> and \<open>stamp\<close> are the two readings of \<open>datetime.now()\<close>, \<open>utcnow\<close> the one of
  \<open>datetime.utcnow()\<close>. An exception that no handler catches leaves the function as it is.
\<close>

definition generate_report ::
  "template_host \<Rightarrow> host \<Rightarrow> datetime \<Rightarrow> datetime \<Rightarrow> datetime \<Rightarrow> BrandStorage \<Rightarrow> ReportRequest
     \<Rightarrow> call list \<times> (error + ReportResponse)" where
  "generate_report th h today stamp utcnow s request =
     (case get s (req_client_id request) of
        None \<Rightarrow> ([], Inl (HTTPException 404 ''Client not found''))
      | Some brand \<Rightarrow>
          (let ctx = build_context brand request today;
               output_name =
                 (case output_filename request of
                    Some n \<Rightarrow> if n = [] then req_client_id request @ ''_report_'' @ strftime_stamp stamp @ ''.docx''
                              else n
                  | None \<Rightarrow> req_client_id request @ ''_report_'' @ strftime_stamp stamp @ ''.docx'');
               rendering = RenderDocx (template_name request) output_name
           in case render_docx th (template_name request) ctx (Some output_name) of
                Inl e \<Rightarrow>
                  ([rendering],
                   Inl (HTTPException 500 (''Failed to render report: '' @ str_of_error e)))
              | Inr docx \<Rightarrow>
                  if generate_pdf request then
                    (case snd (docx_to_pdf h docx None) of
                       Inl (PdfConversionError m) \<Rightarrow>
                         ([rendering, DocxToPdf docx],
                          Inl (HTTPException 500 (''PDF conversion failed: '' @ m)))
                     | Inl e \<Rightarrow> ([rendering, DocxToPdf docx], Inl e)
                     | Inr pdf \<Rightarrow>
                         ([rendering, DocxToPdf docx],
                          Inr \<lparr>resp_client_id = req_client_id request, docx_path = path_str docx,
                                pdf_path = Some (path_str pdf), generated_at = utcnow,
                                template_used = template_name request\<rparr>))
                  else
                    ([rendering],
                     Inr \<lparr>resp_client_id = req_client_id request, docx_path = path_str docx,
                           pdf_path = None, generated_at = utcnow,
                           template_used = template_name request\<rparr>)))"

section \<open>Example data\<close>

definition example_created :: datetime where
  "example_created =
     \<lparr>year = 2026, month = 1, day = 15, hour = 9, minute = 30, second = 0, microsecond = 0\<rparr>"

definition example_now :: datetime where
  "example_now =
     \<lparr>year = 2026, month = 11, day = 4, hour = 14, minute = 5, second = 9,
      microsecond = 120034\<rparr>"

definition acme_stored :: BrandConfig where
  "acme_stored =
     \<lparr>client_id = ''acme'', display_name = ''Acme Co'', primary_color = Some ''#004481'',
      secondary_color = None, font_family = Some ''Roboto'',
      logo_path = Some ''brands/acme_logo.png'',
      website_url = Some (HttpUrl ''https://acme.example/''),
      created_at = Some example_created, updated_at = Some example_created\<rparr>"

definition acme_posted :: BrandConfig where
  "acme_posted =
     \<lparr>client_id = ''acme'', display_name = ''Acme Corp'', primary_color = None,
      secondary_color = None, font_family = None, logo_path = None, website_url = None,
      created_at = None, updated_at = None\<rparr>"

definition globex_stored :: BrandConfig where
  "globex_stored =
     \<lparr>client_id = ''globex'', display_name = ''Globex'', primary_color = None,
      secondary_color = Some ''#ff8800'', font_family = None, logo_path = None,
      website_url = None, created_at = Some example_created, updated_at = Some example_now\<rparr>"

definition empty_store :: BrandStorage where
  "empty_store = \<lparr>cache = [], disk = None\<rparr>"

definition example_store :: BrandStorage where
  "example_store = \<lparr>cache = [(''acme'', acme_stored), (''globex'', globex_stored)], disk = None\<rparr>"

definition linux_with_soffice :: host where
  "linux_with_soffice =
     \<lparr>soffice_on_path = True, platform = ''linux'', soffice_returncode = 0, soffice_stderr = [],
      docx2pdf_installed = False, docx2pdf_raises = None, exists_after = (\<lambda>p. False)\<rparr>"

definition mac_with_docx2pdf :: host where
  "mac_with_docx2pdf =
     \<lparr>soffice_on_path = False, platform = ''darwin'', soffice_returncode = 0, soffice_stderr = [],
      docx2pdf_installed = True, docx2pdf_raises = None, exists_after = (\<lambda>p. True)\<rparr>"

definition bare_linux :: host where
  "bare_linux =
     \<lparr>soffice_on_path = False, platform = ''linux'', soffice_returncode = 0, soffice_stderr = [],
      docx2pdf_installed = False, docx2pdf_raises = None, exists_after = (\<lambda>p. False)\<rparr>"

definition example_docx :: path where
  "example_docx = [''srv'', ''reports'', ''output'', ''acme.docx'']"

definition example_templates :: template_host where
  "example_templates =
     \<lparr>BASE_DIR = [''srv''],
      file_exists = (\<lambda>p. p = [''srv'', ''reports'', ''templates'', ''sample_report.docx'']),
      docxtpl = spec_docxtpl
        (\<lambda>p. p = [''srv'', ''reports'', ''templates'', ''sample_report.docx'']) (\<lambda>p c. None)\<rparr>"

definition example_request :: ReportRequest where
  "example_request =
     \<lparr>req_client_id = ''acme'', template_name = ''sample_report.docx'',
      report_date = Some ''October 2026'', report_period = Some ''Q3 2026'', prepared_by = None,
      executive_summary = Some ''Steady growth.'', metrics = [], highlights = [''Launch''],
      recommendations = [], contact = None,
      extra_context = [''brand'' \<mapsto> JStr ''plain'', ''footer'' \<mapsto> JStr ''Confidential''],
      generate_pdf = False, output_filename = None\<rparr>"

section \<open>The config store\<close>

subsection \<open>Upsert\<close>

text \<open>
  C1, as the code has it. An upsert of a config whose \<open>client_id\<close> is in the store stores
  and returns a record that keeps the \<open>created_at\<close> of the record it replaces, has
  \<open>updated_at\<close> set to the current time and takes every other field, \<open>logo_path\<close>
  among them, from the supplied config. For a \<open>client_id\<close> that is not in the store both
  timestamps are the current time and every other field is the supplied one.
\<close>

theorem upsert_keeps_created_at:
  "(get s (client_id brand) = Some existing \<longrightarrow>
      (case upsert now s brand of (s', r) \<Rightarrow>
         get s' (client_id brand) = Some r \<and>
         created_at r = created_at existing \<and> updated_at r = Some now \<and>
         client_id r = client_id brand \<and> display_name r = display_name brand \<and>
         primary_color r = primary_color brand \<and> secondary_color r = secondary_color brand \<and>
         font_family r = font_family brand \<and> logo_path r = logo_path brand \<and>
         website_url r = website_url brand)) \<and>
   (get s (client_id brand) = None \<longrightarrow>
      (case upsert now s brand of (s', r) \<Rightarrow>
         get s' (client_id brand) = Some r \<and>
         created_at r = Some now \<and> updated_at r = Some now \<and>
         client_id r = client_id brand \<and> display_name r = display_name brand \<and>
         primary_color r = primary_color brand \<and> secondary_color r = secondary_color brand \<and>
         font_family r = font_family brand \<and> logo_path r = logo_path brand \<and>
         website_url r = website_url brand))"
  by (simp add: upsert_def get_def save_def Let_def update_conv')

text \<open>
  C1, witness: the update of the stored client \<open>acme\<close>, and the creation of the same
  client in an empty store.
\<close>

theorem upsert_keeps_created_at_witness:
  "get example_store (client_id acme_posted) = Some acme_stored \<and>
   get (fst (upsert example_now example_store acme_posted)) ''acme'' =
     Some (acme_posted\<lparr>created_at := Some example_created, updated_at := Some example_now\<rparr>) \<and>
   get empty_store (client_id acme_posted) = None \<and>
   get (fst (upsert example_now empty_store acme_posted)) ''acme'' =
     Some (acme_posted\<lparr>created_at := Some example_now, updated_at := Some example_now\<rparr>)"
  using upsert_keeps_created_at [of example_store acme_posted acme_stored example_now]
    upsert_keeps_created_at [of empty_store acme_posted acme_stored example_now]
  by (auto simp: get_def example_store_def empty_store_def acme_posted_def acme_stored_def
      split: prod.splits)

text \<open>
  C1, counterexample: the stored record of \<open>acme\<close> has a logo path; after an upsert of a
  config without one, the record returned has none. The logo path is not kept.
\<close>

theorem upsert_replaces_logo_path:
  "get example_store (client_id acme_posted) = Some acme_stored \<and>
   logo_path acme_stored = Some ''brands/acme_logo.png'' \<and>
   logo_path (snd (upsert example_now example_store acme_posted)) = None"
  by (simp add: upsert_def get_def example_store_def acme_posted_def acme_stored_def Let_def)

subsection \<open>Delete\<close>

lemma length_delete_distinct:
  "distinct (map fst al) \<Longrightarrow> cid \<in> fst ` set al \<Longrightarrow>
   Suc (length (AList.delete cid al)) = length al"
proof (induction al)
  case Nil
  then show ?case by simp
next
  case (Cons p ps)
  show ?case
  proof (cases "fst p = cid")
    case True
    with Cons.prems have "cid \<notin> fst ` set ps" by auto
    then have "AList.delete cid ps = ps" by (simp add: delete_id)
    with True show ?thesis by simp
  next
    case False
    with Cons show ?thesis by auto
  qed
qed

text \<open>
  C7. In a store (a dict: no key twice), deleting a \<open>client_id\<close> that is not present
  returns \<open>False\<close> and leaves the store, cache and file, as it was; deleting one that is
  present returns \<open>True\<close>, removes that record, leaves every other record in place, and
  the store has one record less.
\<close>

theorem delete_found_or_not:
  assumes "distinct (map fst (cache s))"
  shows "(cid \<notin> fst ` set (cache s) \<longrightarrow> delete s cid = (s, False)) \<and>
         (cid \<in> fst ` set (cache s) \<longrightarrow>
            (case delete s cid of (s', found) \<Rightarrow>
               found \<and> get s' cid = None \<and> (\<forall>k. k \<noteq> cid \<longrightarrow> get s' k = get s k) \<and>
               Suc (length (cache s')) = length (cache s)))"
  using assms
  by (simp add: delete_def get_def save_def delete_conv length_delete_distinct)

text \<open>C7, witness: deleting \<open>acme\<close> and deleting an unknown client in the example store.\<close>

theorem delete_found_or_not_witness:
  "distinct (map fst (cache example_store)) \<and>
   ''nobody'' \<notin> fst ` set (cache example_store) \<and>
   delete example_store ''nobody'' = (example_store, False) \<and>
   ''acme'' \<in> fst ` set (cache example_store) \<and>
   snd (delete example_store ''acme'') \<and>
   get (fst (delete example_store ''acme'')) ''acme'' = None \<and>
   get (fst (delete example_store ''acme'')) ''globex'' = Some globex_stored \<and>
   length (cache (fst (delete example_store ''acme''))) = 1"
  using delete_found_or_not [of example_store "''nobody''"]
    delete_found_or_not [of example_store "''acme''"]
  by (auto simp: example_store_def get_def split: prod.splits)

subsection \<open>Save and load\<close>

lemma validate_dump:
  "accepts_own_dump V b \<Longrightarrow> BrandConfig_validate V (model_dump b) = Some b"
  by (cases b)
     (auto simp: accepts_own_dump_def BrandConfig_validate_def model_dump_def required_field_def
        optional_field_def str_validator_def opt_json_def split: option.splits)

lemma those_validate_dump:
  "\<forall>(k, b) \<in> set c. accepts_own_dump V b \<Longrightarrow>
   those (map (\<lambda>(k, v). map_option (Pair k) (BrandConfig_validate V v))
            (map (\<lambda>(k, v). (k, model_dump v)) c)) = Some c"
  by (induction c) (auto simp: validate_dump)

text \<open>The ISO validator reads back what \<open>isoformat\<close> writes, for every datetime in range.\<close>

lemma digit_value_digit: "d < 10 \<Longrightarrow> digit_value (digit d) = Some d"
proof -
  assume "d < 10"
  then have "d \<in> {0, 1, 2, 3, 4, 5, 6, 7, 8, 9}" by auto
  then show ?thesis by (auto simp: digit_value_def digit_def)
qed

lemma number_dec: "number acc (dec n @ rest) = number (acc * 10 ^ length (dec n) + n) rest"
proof (induction n arbitrary: acc rest rule: dec.induct)
  case (1 n)
  show ?case
  proof (cases "n < 10")
    case True
    then show ?thesis by (simp add: dec.simps [of n] digit_value_digit mult.commute)
  next
    case False
    have "number acc (dec n @ rest) = number acc (dec (n div 10) @ (digit (n mod 10) # rest))"
      using False by (simp add: dec.simps [of n])
    also have "\<dots> = number (acc * 10 ^ length (dec (n div 10)) + n div 10) (digit (n mod 10) # rest)"
      using False by (simp add: "1.IH")
    also have "\<dots> = number (acc * 10 ^ length (dec n) + n) rest"
      using False by (simp add: dec.simps [of n] digit_value_digit algebra_simps)
    finally show ?thesis .
  qed
qed

lemma number_zeros: "number 0 (replicate m (CHR ''0'') @ rest) = number 0 rest"
  by (induction m) (simp_all add: digit_value_def)

lemma number_zpad: "number 0 (zpad k n) = Some n"
  using number_zeros [of "k - length (dec n)" "dec n"] number_dec [of 0 n "[]"]
  by (simp add: zpad_def)

lemma length_dec: "0 < k \<Longrightarrow> n < 10 ^ k \<Longrightarrow> length (dec n) \<le> k"
proof (induction n arbitrary: k rule: dec.induct)
  case (1 n)
  show ?case
  proof (cases "n < 10")
    case True
    with "1.prems" show ?thesis by (simp add: dec.simps [of n])
  next
    case False
    with "1.prems" obtain j where k: "k = Suc j" by (cases k) auto
    with False "1.prems" have "0 < j" by (cases j) auto
    moreover from k "1.prems" have "n div 10 < 10 ^ j" by (simp add: less_mult_imp_div_less)
    ultimately have "length (dec (n div 10)) \<le> j" using "1.IH" False by simp
    with False k show ?thesis by (simp add: dec.simps [of n])
  qed
qed

lemma length_zpad: "0 < k \<Longrightarrow> n < 10 ^ k \<Longrightarrow> length (zpad k n) = k"
  using length_dec [of k n] by (simp add: zpad_def)

lemma iso_fields:
  assumes "length a = 4" "length b = 2" "length c = 2" "length d = 2" "length e = 2" "length f = 2"
    and "g = [] \<or> (\<exists>u. g = CHR ''.'' # u \<and> length u = 6)"
  defines "s \<equiv> a @ ''-'' @ b @ ''-'' @ c @ ''T'' @ d @ '':'' @ e @ '':'' @ f @ g"
  shows "take 4 s = a" "take 2 (drop 5 s) = b" "take 2 (drop 8 s) = c" "take 2 (drop 11 s) = d"
    "take 2 (drop 14 s) = e" "take 2 (drop 17 s) = f" "drop 20 s = tl g"
    "s ! 4 = CHR ''-''" "s ! 7 = CHR ''-''" "s ! 10 = CHR ''T''" "s ! 13 = CHR '':''" "s ! 16 = CHR '':''"
    "length s = 19 + length g" "g \<noteq> [] \<longrightarrow> s ! 19 = CHR ''.''"
  using assms by (auto simp: nth_append)

lemma iso_datetime_isoformat: "in_range t \<Longrightarrow> iso_datetime (isoformat t) = Some t"
proof -
  assume r: "in_range t"
  let ?g = "if microsecond t = 0 then [] else ''.'' @ zpad 6 (microsecond t)"
  have l: "length (zpad 4 (year t)) = 4" "length (zpad 2 (month t)) = 2" "length (zpad 2 (day t)) = 2"
    "length (zpad 2 (hour t)) = 2" "length (zpad 2 (minute t)) = 2" "length (zpad 2 (second t)) = 2"
    "length (zpad 6 (microsecond t)) = 6"
    using r by (simp_all add: in_range_def length_zpad)
  have g: "?g = [] \<or> (\<exists>u. ?g = CHR ''.'' # u \<and> length u = 6)" using l by simp
  note f = iso_fields [OF l(1-6) g, folded isoformat_def]
  have tl: "number 0 (tl ?g) = Some (microsecond t)" by (simp add: number_zpad)
  have len: "length (isoformat t) = (if microsecond t = 0 then 19 else 26)"
    using f(13) l(7) by simp
  have dot: "microsecond t \<noteq> 0 \<Longrightarrow> isoformat t ! 19 = CHR ''.''"
    using f(14) by simp
  have rec: "\<lparr>year = year t, month = month t, day = day t, hour = hour t, minute = minute t,
      second = second t, microsecond = microsecond t\<rparr> = t"
    by simp
  show ?thesis
  proof (cases "microsecond t = 0")
    case True
    with r len tl rec show ?thesis
      unfolding iso_datetime_def f(1-12) by (simp add: number_zpad in_range_def)
  next
    case False
    with r len tl rec dot show ?thesis
      unfolding iso_datetime_def f(1-12) by (simp add: number_zpad in_range_def)
  qed
qed

lemma iso_validators_accept:
  assumes "case created_at b of None \<Rightarrow> True | Some t \<Rightarrow> in_range t"
    and "case updated_at b of None \<Rightarrow> True | Some t \<Rightarrow> in_range t"
  shows "accepts_own_dump iso_validators b"
  using assms
  by (auto simp: accepts_own_dump_def iso_validators_def iso_datetime_isoformat
      split: option.splits)

text \<open>
  C6. For every store whose records' URLs and timestamps the library's validators read
  back from their own JSON text, saving the store and constructing a fresh instance on
  the file written gives a cache equal to the original one: the same client ids in the
  same order, each with a record equal in every field, timestamps and optional fields
  included.
\<close>

theorem save_load_roundtrip:
  assumes "\<forall>(k, b) \<in> set (cache s). accepts_own_dump V b"
  shows "cache (BrandStorage_init V (disk (save s))) = cache s"
  using those_validate_dump [OF assms]
  by (simp add: BrandStorage_init_def load_def save_def)

text \<open>
  C6, witness: the example store (two clients, with and without URL, logo and
  microseconds) under the ISO validator.
\<close>

theorem save_load_roundtrip_witness:
  "accepts_own_dump iso_validators acme_stored \<and>
   accepts_own_dump iso_validators globex_stored \<and>
   cache (BrandStorage_init iso_validators (disk (save example_store))) =
     [(''acme'', acme_stored), (''globex'', globex_stored)]"
proof -
  have t: "in_range example_created" "in_range example_now"
    by (simp_all add: in_range_def example_created_def example_now_def)
  have a: "accepts_own_dump iso_validators acme_stored"
    "accepts_own_dump iso_validators globex_stored"
    using t by (simp_all add: iso_validators_accept acme_stored_def globex_stored_def)
  then have h: "\<forall>(k, b) \<in> set (cache example_store). accepts_own_dump iso_validators b"
    by (simp add: example_store_def)
  from save_load_roundtrip [OF h] a show ?thesis by (simp add: example_store_def)
qed

section \<open>The document converter\<close>

text \<open>
  C2, the failing case. \<open>soffice\<close> is on the path and exits with status 0, and no file
  is on disk afterwards: \<open>docx_to_pdf\<close> returns the path of the PDF it expects, where
  the \<open>docx2pdf\<close> backend raises \<open>PdfConversionError\<close> for a missing output file.
\<close>

theorem libreoffice_exit_zero_without_output:
  "docx_to_pdf linux_with_soffice example_docx None =
     ([SubprocessRun [''soffice'', ''--headless'', ''--convert-to'', ''pdf'', ''--outdir'',
                      ''/srv/reports/output'', ''/srv/reports/output/acme.docx'']],
      Inr [''srv'', ''reports'', ''output'', ''acme.pdf'']) \<and>
   soffice_returncode linux_with_soffice = 0 \<and>
   exists_after linux_with_soffice [''srv'', ''reports'', ''output'', ''acme.pdf''] = False"
  by (simp add: docx_to_pdf_def with_suffix_def convert_with_libreoffice_def linux_with_soffice_def
      stem_def path_name_def example_docx_def parent_def joinpath_def path_str_def)

text \<open>
  C8. For a conversion request that names a file (or gives the output path): when
  \<open>soffice\<close> is on the path, the one backend invocation is the \<open>soffice\<close> process with
  the fixed arguments; otherwise, on \<open>win32\<close> and \<open>darwin\<close>, it is \<open>docx2pdf\<close>'s
  \<open>convert\<close> (and a \<open>PdfConversionError\<close> without any invocation when the library is
  not installed); otherwise no backend is invoked and the call fails with a
  \<open>PdfConversionError\<close> whose message contains "No PDF backend found". No request
  invokes a backend more than once.
\<close>

theorem backend_selection:
  assumes "output_path = None \<longrightarrow> path_name input_path \<noteq> []"
  shows "(soffice_on_path h \<longrightarrow>
            (\<exists>outdir src. fst (docx_to_pdf h input_path output_path) =
               [SubprocessRun [''soffice'', ''--headless'', ''--convert-to'', ''pdf'', ''--outdir'',
                               outdir, src]])) \<and>
         (\<not> soffice_on_path h \<and> platform h \<in> {''win32'', ''darwin''} \<and> docx2pdf_installed h \<longrightarrow>
            (\<exists>src dst. fst (docx_to_pdf h input_path output_path) = [Docx2pdfConvert src dst])) \<and>
         (\<not> soffice_on_path h \<and> platform h \<in> {''win32'', ''darwin''} \<and> \<not> docx2pdf_installed h \<longrightarrow>
            docx_to_pdf h input_path output_path =
              ([], Inl (PdfConversionError ''docx2pdf not installed''))) \<and>
         (\<not> soffice_on_path h \<and> platform h \<notin> {''win32'', ''darwin''} \<longrightarrow>
            (\<exists>m. docx_to_pdf h input_path output_path = ([], Inl (PdfConversionError m)) \<and>
                 str_contains ''No PDF backend found'' m)) \<and>
         length (fst (docx_to_pdf h input_path output_path)) \<le> 1"
  using assms
  by (cases output_path)
     (simp_all add: docx_to_pdf_def with_suffix_def convert_with_libreoffice_def
        convert_with_docx2pdf_def Let_def)

text \<open>
  C8, witness: a Linux host with \<open>soffice\<close>, a macOS host with \<open>docx2pdf\<close> only, and a
  Linux host with neither.
\<close>

theorem backend_selection_witness:
  "path_name example_docx \<noteq> [] \<and>
   soffice_on_path linux_with_soffice \<and>
   fst (docx_to_pdf linux_with_soffice example_docx None) =
     [SubprocessRun [''soffice'', ''--headless'', ''--convert-to'', ''pdf'', ''--outdir'',
                     ''/srv/reports/output'', ''/srv/reports/output/acme.docx'']] \<and>
   \<not> soffice_on_path mac_with_docx2pdf \<and> platform mac_with_docx2pdf \<in> {''win32'', ''darwin''} \<and>
   docx2pdf_installed mac_with_docx2pdf \<and>
   fst (docx_to_pdf mac_with_docx2pdf example_docx None) =
     [Docx2pdfConvert ''/srv/reports/output/acme.docx'' ''/srv/reports/output/acme.pdf''] \<and>
   \<not> soffice_on_path bare_linux \<and> platform bare_linux \<notin> {''win32'', ''darwin''} \<and>
   docx_to_pdf bare_linux example_docx None =
     ([], Inl (PdfConversionError
        ''No PDF backend found. Install LibreOffice (soffice on PATH) or docx2pdf.''))"
  using backend_selection [of None example_docx linux_with_soffice]
    backend_selection [of None example_docx mac_with_docx2pdf]
    backend_selection [of None example_docx bare_linux]
  by (simp add: docx_to_pdf_def with_suffix_def convert_with_libreoffice_def
      convert_with_docx2pdf_def linux_with_soffice_def mac_with_docx2pdf_def bare_linux_def
      stem_def path_name_def example_docx_def parent_def joinpath_def path_str_def)

section \<open>The template renderer\<close>

lemma split_slash_component: "CHR ''/'' \<notin> set n \<Longrightarrow> split_slash n = [n]"
  by (induction n) auto

lemma truediv_component:
  "n \<noteq> [] \<Longrightarrow> n \<noteq> ''.'' \<Longrightarrow> CHR ''/'' \<notin> set n \<Longrightarrow> truediv p n = joinpath p n"
  by (cases n) (auto simp: truediv_def joinpath_def path_parts_def split_slash_component)

lemma spec_docxtpl_absent:
  "\<not> on_disk p \<Longrightarrow> \<exists>m. spec_docxtpl on_disk engine p c out = Some (NotFoundError m)"
  by (simp add: spec_docxtpl_def)

text \<open>
  C3. \<open>render_docx\<close> opens the file \<open>TEMPLATE_DIR / template_name\<close> with the template
  library and lets the library's error through as it is. So, with a library that reports
  a file that is not on disk with its not-found error, \<open>render_docx\<close> fails with a
  not-found error for every template name whose file is absent, whatever the context and
  the output name.
\<close>

theorem render_docx_template_absent:
  assumes "\<And>p c out. \<not> file_exists th p \<Longrightarrow> \<exists>m. docxtpl th p c out = Some (NotFoundError m)"
    and "\<not> file_exists th (truediv (TEMPLATE_DIR th) name)"
  shows "\<exists>m. render_docx th name ctx output_name = Inl (NotFoundError m)"
proof -
  let ?out = "truediv (OUTPUT_DIR th)
    (case output_name of None \<Rightarrow> default_output_name name | Some n \<Rightarrow> n)"
  from assms obtain m where
    "docxtpl th (truediv (TEMPLATE_DIR th) name) ctx ?out = Some (NotFoundError m)"
    by blast
  then have "render_docx th name ctx output_name = Inl (NotFoundError m)"
    by (simp add: render_docx_def Let_def)
  then show ?thesis ..
qed

text \<open>
  C3, witness: the example installation, whose library is the one modelled from the
  specification, and a template name it has no file for.
\<close>

theorem render_docx_template_absent_witness:
  "file_exists example_templates (truediv (TEMPLATE_DIR example_templates) ''missing.docx'') = False \<and>
   render_docx example_templates ''missing.docx'' Map.empty None =
     Inl (NotFoundError ''/srv/reports/templates/missing.docx'')"
proof -
  have c: "\<And>p c out. \<not> file_exists example_templates p \<Longrightarrow>
      \<exists>m. docxtpl example_templates p c out = Some (NotFoundError m)"
    by (simp add: example_templates_def spec_docxtpl_def)
  have t: "truediv (TEMPLATE_DIR example_templates) ''missing.docx'' =
      [''srv'', ''reports'', ''templates'', ''missing.docx'']"
    by (simp add: truediv_def path_parts_def TEMPLATE_DIR_def joinpath_def example_templates_def)
  have a: "\<not> file_exists example_templates (truediv (TEMPLATE_DIR example_templates) ''missing.docx'')"
    unfolding t by (simp add: example_templates_def)
  from render_docx_template_absent [OF c a, of Map.empty None] a t show ?thesis
    by (auto simp: render_docx_def Let_def example_templates_def spec_docxtpl_def path_str_def)
qed

subsection \<open>The default output name\<close>

lemma str_replace_Nil: "old \<noteq> [] \<Longrightarrow> str_replace old new [] = []"
  by (subst str_replace.simps) simp

lemma str_replace_match:
  "old \<noteq> [] \<Longrightarrow> str_replace old new (old @ s) = new @ str_replace old new s"
  by (subst str_replace.simps) simp

lemma str_replace_nomatch_Cons:
  "old \<noteq> [] \<Longrightarrow> take (length old) (c # s) \<noteq> old \<Longrightarrow>
   str_replace old new (c # s) = c # str_replace old new s"
  by (subst str_replace.simps) simp

lemma str_replace_absent:
  "old \<noteq> [] \<Longrightarrow> \<not> str_contains old s \<Longrightarrow> str_replace old new s = s"
proof (induction s)
  case Nil
  then show ?case by (simp add: str_replace_Nil)
next
  case (Cons c s)
  then show ?case by (simp add: str_replace_nomatch_Cons)
qed

text \<open>An occurrence of \<open>.docx\<close> that starts before the final \<open>.docx\<close> lies before it.\<close>

lemma take5_docx:
  assumes "take 5 (xs @ ''.docx'') = ''.docx''" "xs \<noteq> []"
  shows "take 5 xs = ''.docx''"
proof -
  from assms(2) have "length xs \<noteq> 0" by simp
  then consider "length xs \<ge> 5" | "length xs = 1" | "length xs = 2" | "length xs = 3"
    | "length xs = 4"
    by arith
  then show ?thesis
  proof cases
    case 1
    with assms show ?thesis by simp
  next
    case 2
    then obtain a where "xs = [a]" by (cases xs) auto
    with assms show ?thesis by simp
  next
    case 3
    then obtain a b where "xs = [a, b]" by (auto simp: length_Suc_conv numeral_2_eq_2)
    with assms show ?thesis by simp
  next
    case 4
    then obtain a b c where "xs = [a, b, c]" by (auto simp: length_Suc_conv numeral_3_eq_3)
    with assms show ?thesis by simp
  next
    case 5
    then obtain a b c d where "xs = [a, b, c, d]"
      by (auto simp: length_Suc_conv eval_nat_numeral)
    with assms show ?thesis by simp
  qed
qed

lemma str_replace_docx_suffix:
  "\<not> str_contains ''.docx'' base \<Longrightarrow>
   str_replace ''.docx'' new (base @ ''.docx'') = base @ new"
proof (induction base)
  case Nil
  show ?case using str_replace_match [of "''.docx''" new "[]"] by (simp add: str_replace_Nil)
next
  case (Cons c s)
  have five: "length ''.docx'' = 5" by simp
  from Cons.prems have "take (length ''.docx'') (c # s) \<noteq> ''.docx''"
    and r: "\<not> str_contains ''.docx'' s"
    unfolding str_contains.simps by blast+
  then have n: "take 5 (c # s) \<noteq> ''.docx''" unfolding five by simp
  have "take 5 ((c # s) @ ''.docx'') \<noteq> ''.docx''"
    using take5_docx [of "c # s"] n by blast
  then have "take (length ''.docx'') (c # (s @ ''.docx'')) \<noteq> ''.docx''"
    unfolding five by simp
  then have "str_replace ''.docx'' new ((c # s) @ ''.docx'') =
      c # str_replace ''.docx'' new (s @ ''.docx'')"
    using str_replace_nomatch_Cons [of "''.docx''" c "s @ ''.docx''" new] by simp
  with Cons.IH [OF r] show ?case by simp
qed

text \<open>
  C9, as the code has it. With \<open>output_name\<close> omitted, a successful rendering is written
  under the default output name of the template name. For a template name
  \<open>base.docx\<close> whose \<open>base\<close> does not contain \<open>.docx\<close> that name is
  \<open>base_rendered.docx\<close>; for a template name that does not contain \<open>.docx\<close> at all it is
  the template name itself.
\<close>

theorem default_output_name_docx:
  "(docxtpl th (truediv (TEMPLATE_DIR th) name) ctx
        (truediv (OUTPUT_DIR th) (default_output_name name)) = None \<longrightarrow>
      render_docx th name ctx None = Inr (truediv (OUTPUT_DIR th) (default_output_name name))) \<and>
   (\<not> str_contains ''.docx'' base \<longrightarrow>
      default_output_name (base @ ''.docx'') = base @ ''_rendered.docx'') \<and>
   (\<not> str_contains ''.docx'' name \<longrightarrow> default_output_name name = name)"
  by (simp add: render_docx_def Let_def default_output_name_def str_replace_docx_suffix
      str_replace_absent)

text \<open>
  C9, witness: the template of the example installation, the name \<open>report.docx\<close>, and a
  name with another extension.
\<close>

theorem default_output_name_docx_witness:
  "docxtpl example_templates [''srv'', ''reports'', ''templates'', ''sample_report.docx'']
     Map.empty [''srv'', ''reports'', ''output'', ''sample_report_rendered.docx''] = None \<and>
   render_docx example_templates ''sample_report.docx'' Map.empty None =
     Inr [''srv'', ''reports'', ''output'', ''sample_report_rendered.docx''] \<and>
   \<not> str_contains ''.docx'' ''report'' \<and>
   default_output_name ''report.docx'' = ''report_rendered.docx'' \<and>
   \<not> str_contains ''.docx'' ''notes.txt'' \<and>
   default_output_name ''notes.txt'' = ''notes.txt''"
proof -
  have a: "\<not> str_contains ''.docx'' ''sample_report''" "\<not> str_contains ''.docx'' ''report''"
    "\<not> str_contains ''.docx'' ''notes.txt''"
    by simp_all
  have n: "default_output_name ''sample_report.docx'' = ''sample_report_rendered.docx''"
    using a(1) default_output_name_docx [of example_templates "''sample_report.docx''" Map.empty
        "''sample_report''"]
    by simp
  have p: "truediv (TEMPLATE_DIR example_templates) ''sample_report.docx'' =
      [''srv'', ''reports'', ''templates'', ''sample_report.docx'']"
    "truediv (OUTPUT_DIR example_templates) ''sample_report_rendered.docx'' =
      [''srv'', ''reports'', ''output'', ''sample_report_rendered.docx'']"
    by (simp_all add: truediv_def path_parts_def TEMPLATE_DIR_def OUTPUT_DIR_def joinpath_def
        example_templates_def)
  have e: "docxtpl example_templates [''srv'', ''reports'', ''templates'', ''sample_report.docx'']
     Map.empty [''srv'', ''reports'', ''output'', ''sample_report_rendered.docx''] = None"
    by (simp add: example_templates_def spec_docxtpl_def)
  show ?thesis
    using a e
      default_output_name_docx [of example_templates "''sample_report.docx''" Map.empty
        "''sample_report''"]
      default_output_name_docx [of example_templates "''notes.txt''" Map.empty "''report''"]
    unfolding n p by simp
qed

text \<open>
  C9, counterexample: in \<open>report.docx.docx\<close> the extension is the last \<open>.docx\<close> and the
  rest of the name is \<open>report.docx\<close>; the default output name is not
  \<open>report.docx_rendered.docx\<close>, both occurrences are replaced.
\<close>

theorem default_output_name_replaces_all:
  "stem [''report.docx.docx''] = ''report.docx'' \<and>
   default_output_name ''report.docx.docx'' = ''report_rendered.docx_rendered.docx'' \<and>
   default_output_name ''report.docx.docx'' \<noteq> ''report.docx'' @ ''_rendered'' @ ''.docx''"
  by (simp add: default_output_name_def str_replace.simps stem_def path_name_def)

section \<open>Report generation\<close>

subsection \<open>The context\<close>

text \<open>
  C4. In the context built for a brand and a request, a key of \<open>extra_context\<close> has the
  value \<open>extra_context\<close> gives it, whatever was computed for that key; a key that is not
  in \<open>extra_context\<close> keeps its computed value. In particular \<open>brand\<close> is the nested
  mapping of the brand's styling fields exactly when \<open>extra_context\<close> has no \<open>brand\<close>.
\<close>

theorem extra_context_shadows:
  "(extra_context request k = Some v \<longrightarrow> build_context brand request today k = Some v) \<and>
   (extra_context request k = None \<longrightarrow>
      build_context brand request today k = computed_context brand request today k) \<and>
   (extra_context request ''brand'' = None \<longrightarrow>
      build_context brand request today ''brand'' =
        Some (JDict [(''primary_color'', opt_json JStr (primary_color brand)),
                     (''secondary_color'', opt_json JStr (secondary_color brand)),
                     (''font_family'', opt_json JStr (font_family brand)),
                     (''logo_path'', opt_json JStr (logo_path brand))]))"
  by (simp add: build_context_def computed_context_def map_add_def)

text \<open>
  C4, witness: the example request overrides \<open>brand\<close> and adds \<open>footer\<close>; \<open>client_name\<close>
  stays as computed, and without the override \<open>brand\<close> is the styling of the client.
\<close>

theorem extra_context_shadows_witness:
  "extra_context example_request ''brand'' = Some (JStr ''plain'') \<and>
   build_context acme_stored example_request example_now ''brand'' = Some (JStr ''plain'') \<and>
   extra_context example_request ''client_name'' = None \<and>
   build_context acme_stored example_request example_now ''client_name'' =
     Some (JStr ''Acme Co'') \<and>
   extra_context (example_request\<lparr>extra_context := Map.empty\<rparr>) ''brand'' = None \<and>
   build_context acme_stored (example_request\<lparr>extra_context := Map.empty\<rparr>) example_now ''brand'' =
     Some (JDict [(''primary_color'', JStr ''#004481''), (''secondary_color'', JNull),
                  (''font_family'', JStr ''Roboto''),
                  (''logo_path'', JStr ''brands/acme_logo.png'')])"
  using extra_context_shadows [of example_request "''brand''" "JStr ''plain''" acme_stored example_now]
    extra_context_shadows [of example_request "''client_name''" "JStr ''plain''" acme_stored
      example_now]
    extra_context_shadows [of "example_request\<lparr>extra_context := Map.empty\<rparr>" "''brand''"
      "JStr ''plain''" acme_stored example_now]
  by (simp add: example_request_def acme_stored_def computed_context_def opt_json_def)

text \<open>
  C10, as the code has it. For a key that \<open>extra_context\<close> does not override:
  \<open>report_date\<close> is the supplied report date when one is supplied and is not empty, and
  the current date as "Month Day, Year" when it is absent or empty; \<open>report_period\<close>,
  \<open>prepared_by\<close> and \<open>executive_summary\<close> are the supplied value when one is supplied and
  the empty string when it is absent.
\<close>

theorem context_text_defaults:
  "(extra_context request ''report_date'' = None \<longrightarrow>
      build_context brand request today ''report_date'' =
        Some (JStr (case report_date request of
                      None \<Rightarrow> strftime_long today
                    | Some v \<Rightarrow> if v = [] then strftime_long today else v))) \<and>
   (extra_context request ''report_period'' = None \<longrightarrow>
      build_context brand request today ''report_period'' =
        Some (JStr (case report_period request of None \<Rightarrow> [] | Some v \<Rightarrow> v))) \<and>
   (extra_context request ''prepared_by'' = None \<longrightarrow>
      build_context brand request today ''prepared_by'' =
        Some (JStr (case prepared_by request of None \<Rightarrow> [] | Some v \<Rightarrow> v))) \<and>
   (extra_context request ''executive_summary'' = None \<longrightarrow>
      build_context brand request today ''executive_summary'' =
        Some (JStr (case executive_summary request of None \<Rightarrow> [] | Some v \<Rightarrow> v)))"
  by (simp add: build_context_def computed_context_def map_add_def or_else_def
      split: option.splits)

text \<open>
  C10, witness: the example request (date and period supplied, author absent), and the
  same request without a date on 4 November 2026.
\<close>

theorem context_text_defaults_witness:
  "extra_context example_request ''report_date'' = None \<and>
   build_context acme_stored example_request example_now ''report_date'' =
     Some (JStr ''October 2026'') \<and>
   build_context acme_stored (example_request\<lparr>report_date := None\<rparr>) example_now ''report_date'' =
     Some (JStr ''November 04, 2026'') \<and>
   extra_context example_request ''report_period'' = None \<and>
   build_context acme_stored example_request example_now ''report_period'' =
     Some (JStr ''Q3 2026'') \<and>
   extra_context example_request ''prepared_by'' = None \<and>
   build_context acme_stored example_request example_now ''prepared_by'' = Some (JStr []) \<and>
   extra_context example_request ''executive_summary'' = None \<and>
   build_context acme_stored example_request example_now ''executive_summary'' =
     Some (JStr ''Steady growth.'')"
proof -
  have d: "strftime_long example_now = ''November 04, 2026''"
    by (simp add: strftime_long_def month_name_def zpad_def dec.simps digit_def example_now_def)
  show ?thesis
    using d context_text_defaults [of example_request acme_stored example_now]
      context_text_defaults [of "example_request\<lparr>report_date := None\<rparr>" acme_stored example_now]
    by (simp add: example_request_def)
qed

text \<open>
  C10, counterexample: a request that supplies the empty string as its report date gets
  the current date, not the value it supplied; and a supplied report period does not reach
  the context when \<open>extra_context\<close> has a \<open>report_period\<close> of its own.
\<close>

theorem empty_report_date_is_replaced:
  "report_date (example_request\<lparr>report_date := Some []\<rparr>) = Some [] \<and>
   build_context acme_stored (example_request\<lparr>report_date := Some []\<rparr>) example_now
     ''report_date'' = Some (JStr ''November 04, 2026'') \<and>
   report_period (example_request\<lparr>extra_context := [''report_period'' \<mapsto> JStr ''FY26'']\<rparr>) =
     Some ''Q3 2026'' \<and>
   build_context acme_stored
     (example_request\<lparr>extra_context := [''report_period'' \<mapsto> JStr ''FY26'']\<rparr>) example_now
     ''report_period'' = Some (JStr ''FY26'')"
  by (simp add: build_context_def computed_context_def or_else_def example_request_def
      strftime_long_def month_name_def zpad_def dec.simps digit_def example_now_def)

subsection \<open>Unknown clients\<close>

text \<open>
  C5. A request whose \<open>client_id\<close> is not in the store is answered with the 404 error
  "Client not found", and no call into the renderer or the converter is made; for a
  client that is in the store the first call is the rendering.
\<close>

theorem unknown_client_is_404:
  "(get s (req_client_id request) = None \<longrightarrow>
      generate_report th h today stamp utcnow s request =
        ([], Inl (HTTPException 404 ''Client not found''))) \<and>
   (get s (req_client_id request) \<noteq> None \<longrightarrow>
      (\<exists>output_name rest. fst (generate_report th h today stamp utcnow s request) =
         RenderDocx (template_name request) output_name # rest))"
  by (auto simp: generate_report_def Let_def split: option.splits sum.splits error.splits)

text \<open>
  C5, witness: in the example store the request for \<open>nobody\<close> is refused without a
  call, the request for \<open>acme\<close> renders once.
\<close>

theorem unknown_client_is_404_witness:
  "get example_store (req_client_id (example_request\<lparr>req_client_id := ''nobody''\<rparr>)) = None \<and>
   generate_report example_templates bare_linux example_now example_now example_now example_store
     (example_request\<lparr>req_client_id := ''nobody''\<rparr>) =
     ([], Inl (HTTPException 404 ''Client not found'')) \<and>
   get example_store (req_client_id example_request) \<noteq> None \<and>
   fst (generate_report example_templates bare_linux example_now example_now example_now
     example_store example_request) =
     [RenderDocx ''sample_report.docx'' ''acme_report_20261104_140509.docx'']"
proof -
  have g: "get example_store ''nobody'' = None" "get example_store ''acme'' = Some acme_stored"
    by (simp_all add: get_def example_store_def)
  have st: "strftime_stamp example_now = ''20261104_140509''"
    by (simp add: strftime_stamp_def zpad_def dec.simps digit_def example_now_def)
  have r: "fst (generate_report example_templates bare_linux example_now example_now example_now
     example_store example_request) =
     [RenderDocx ''sample_report.docx'' ''acme_report_20261104_140509.docx'']"
    using g st
    by (simp add: generate_report_def Let_def example_request_def render_docx_def
        example_templates_def spec_docxtpl_def truediv_def path_parts_def TEMPLATE_DIR_def
        joinpath_def)
  show ?thesis
    using g r
      unknown_client_is_404 [of example_store "example_request\<lparr>req_client_id := ''nobody''\<rparr>"
        example_templates bare_linux example_now example_now example_now]
      unknown_client_is_404 [of example_store example_request
        example_templates bare_linux example_now example_now example_now]
    by (simp add: example_request_def)
qed

end
